theory Spec2Isabelle
  imports Main
begin

section \<open>JavaScript values and errors\<close>

text \<open>
  The route handlers of \<^verbatim>\<open>routes/userRoutes.js\<close> never look at the type of the data
  they pass around: they test it for truthiness (\<^verbatim>\<open>!data\<close>, \<^verbatim>\<open>if(user)\<close>), read
  members (\<^verbatim>\<open>user.password\<close>, \<^verbatim>\<open>user.id\<close>, \<^verbatim>\<open>data[0]\<close>) and hand it to
  \<^verbatim>\<open>res.send\<close>. The model therefore keeps JavaScript values untyped. Numbers are
  integers (ids, row counts and status codes are the only numbers that occur).
\<close>

datatype jsval =
    JUndefined
  | JNull
  | JBool bool
  | JNum int
  | JStr string
  | JArr "jsval list"
  | JObj "(string \<times> jsval) list"

datatype js_error =
    ReferenceError string
  | TypeError string
  | Thrown string

text \<open>Truthiness, as used by \<^verbatim>\<open>if(user)\<close> and \<^verbatim>\<open>!data\<close>.\<close>

fun truthy :: "jsval \<Rightarrow> bool" where
  "truthy JUndefined = False"
| "truthy JNull = False"
| "truthy (JBool b) = b"
| "truthy (JNum n) = (n \<noteq> 0)"
| "truthy (JStr s) = (s \<noteq> [])"
| "truthy (JArr xs) = True"
| "truthy (JObj kvs) = True"

text \<open>Reading a key of an object literal such as \<^verbatim>\<open>req.body\<close>: a missing key is
  \<^verbatim>\<open>undefined\<close>.\<close>

definition field :: "(string \<times> jsval) list \<Rightarrow> string \<Rightarrow> jsval" where
  "field kvs k = (case map_of kvs k of None \<Rightarrow> JUndefined | Some v \<Rightarrow> v)"

text \<open>Assigning a key (\<^verbatim>\<open>user.password = ...\<close>): an existing key keeps its place, a
  new key is appended.\<close>

fun assign :: "(string \<times> jsval) list \<Rightarrow> string \<Rightarrow> jsval \<Rightarrow> (string \<times> jsval) list" where
  "assign [] k v = [(k, v)]"
| "assign ((k', v') # kvs) k v = (if k' = k then (k, v) # kvs else (k', v') # assign kvs k v)"

text \<open>A named member read \<^verbatim>\<open>v.name\<close> for the names the handlers use
  (\<^verbatim>\<open>password\<close>, \<^verbatim>\<open>id\<close>): it throws on \<^verbatim>\<open>undefined\<close> and \<^verbatim>\<open>null\<close>, looks the
  key up in an object and is \<^verbatim>\<open>undefined\<close> on every other value.\<close>

fun member :: "jsval \<Rightarrow> string \<Rightarrow> js_error + jsval" where
  "member JUndefined k = Inl (TypeError ''Cannot read properties of undefined'')"
| "member JNull k = Inl (TypeError ''Cannot read properties of null'')"
| "member (JObj kvs) k = Inr (field kvs k)"
| "member v k = Inr JUndefined"

text \<open>The indexed read \<^verbatim>\<open>data[0]\<close>.\<close>

fun index0 :: "jsval \<Rightarrow> js_error + jsval" where
  "index0 JUndefined = Inl (TypeError ''Cannot read properties of undefined'')"
| "index0 JNull = Inl (TypeError ''Cannot read properties of null'')"
| "index0 (JArr []) = Inr JUndefined"
| "index0 (JArr (x # xs)) = Inr x"
| "index0 (JStr []) = Inr JUndefined"
| "index0 (JStr (c # cs)) = Inr (JStr [c])"
| "index0 (JObj kvs) = Inr (field kvs ''0'')"
| "index0 v = Inr JUndefined"

section \<open>Credential tokens\<close>

text \<open>
  A credential token is a signed claim: the user's identity, the issuance time and the
  expiration time (both in seconds since the epoch, as the clock reads them), and a
  signature over the three. The signing
  primitive (HMAC under the shared secret) is a parameter of the model; the compact
  textual serialisation of the token is not modelled.
\<close>

record token =
  claim_id :: jsval
  iat :: nat
  exp :: nat
  signature :: string

type_synonym mac = "string \<Rightarrow> jsval \<times> nat \<times> nat \<Rightarrow> string"

text \<open>
  Modelled from the spec: the function \<^verbatim>\<open>jwt.sign\<close> of the \<^verbatim>\<open>jsonwebtoken\<close> package is
  not part of the sources. Section 4.2 of the specification: issuing produces a signed
  token embedding the user id and an expiration of now plus the given life time; if the
  secret is absent, issuance fails.
\<close>

definition jwt_sign :: "mac \<Rightarrow> string option \<Rightarrow> nat \<Rightarrow> jsval \<Rightarrow> nat \<Rightarrow> js_error + token" where
  "jwt_sign m secret now uid expires_in =
     (case secret of
        None \<Rightarrow> Inl (Thrown ''secretOrPrivateKey must have a value'')
      | Some k \<Rightarrow>
          Inr \<lparr>claim_id = uid, iat = now, exp = now + expires_in,
               signature = m k (uid, now, now + expires_in)\<rparr>)"

datatype verdict = Verified jsval | Rejected

text \<open>
  Modelled from the spec: \<^verbatim>\<open>jwt.verify\<close> is not part of the sources. Section 4.2:
  verification recomputes the signature over the claim and rejects if the signature does
  not match or if the current time is at or past the expiration; rejection is a single
  value.
\<close>

definition jwt_verify :: "mac \<Rightarrow> string option \<Rightarrow> nat \<Rightarrow> token \<Rightarrow> verdict" where
  "jwt_verify m secret now t =
     (case secret of
        None \<Rightarrow> Rejected
      | Some k \<Rightarrow>
          if signature t \<noteq> m k (claim_id t, iat t, exp t) then Rejected
          else if exp t \<le> now then Rejected
          else Verified (claim_id t))"

section \<open>Requests, responses and collaborators\<close>

text \<open>
  What a handler sees of a request: the path parameter \<^verbatim>\<open>req.params.id\<close>, the JSON
  body (an object, as \<^verbatim>\<open>express.json()\<close> leaves it), the credential token presented
  with the request, if any, and the error array that \<^verbatim>\<open>validationResult(req)\<close> holds
  after the route's validator chain has run. The validators themselves
  (\<^verbatim>\<open>validators/userValidator.js\<close>) are not part of the sources, so their result is an
  input.
\<close>

record request =
  params_id :: jsval
  body :: "(string \<times> jsval) list"
  auth_token :: "token option"
  validation_errors :: "jsval list"

text \<open>
  The four shapes of response body the handlers produce:
  \<^item> \<open>StatusText t\<close>: \<^verbatim>\<open>res.sendStatus(code)\<close>, the status text as plain text;
  \<^item> \<open>ErrorsJson e\<close>: \<^verbatim>\<open>res.status(code).json({errors: e})\<close>;
  \<^item> \<open>ResultJson d\<close>: \<^verbatim>\<open>res.send({result: 200, data: d})\<close>;
  \<^item> \<open>LoginJson t u\<close>: \<^verbatim>\<open>res.send({result: 200, data: {token: t, user: u}})\<close>.
\<close>

datatype content =
    StatusText string
  | ErrorsJson jsval
  | ResultJson jsval
  | LoginJson token jsval

record response =
  status :: nat
  content :: content

text \<open>
  How a handler ends: it sends a response, it passes an error to \<^verbatim>\<open>next\<close>, or the
  promise of the async handler is rejected with an error: the handler has then sent
  nothing and has not called \<^verbatim>\<open>next\<close>.
\<close>

datatype outcome =
    Sent response
  | Next js_error
  | Unhandled js_error

text \<open>
  The calls of \<^verbatim>\<open>controllers/userController.js\<close>, which is not part of the sources.
  The controller is a parameter: a function from the call to what the call returns or
  throws. Every handler also reports the calls it made, in order.
\<close>

datatype call =
    GetUsers
  | GetUser jsval
  | CreateUser jsval
  | GetUserByEmail jsval
  | UpdateUser jsval jsval
  | DeleteUser jsval

type_synonym controller = "call \<Rightarrow> js_error + jsval"

text \<open>
  The environment of the router: the signing secret \<^verbatim>\<open>process.env.JWT_SECRET\<close>
  (\<open>None\<close> when unset), the signing primitive, and the two functions of the \<^verbatim>\<open>bcrypt\<close>
  package the handlers call. The package is not part of the sources and nothing is
  assumed about it; \<open>hashSync\<close> stands for one call, with the salt that call draws.
\<close>

record env =
  jwt_secret :: "string option"
  hmac :: mac
  hashSync :: "jsval \<Rightarrow> nat \<Rightarrow> js_error + jsval"
  compareSync :: "jsval \<Rightarrow> jsval \<Rightarrow> js_error + bool"

definition saltRounds :: nat where
  "saltRounds = 10"

text \<open>The life time \<^verbatim>\<open>expiresIn: "1h"\<close>, in seconds.\<close>

definition expiresIn :: nat where
  "expiresIn = 60 * 60"

text \<open>
  The token issuer of the login route:
  \<^verbatim>\<open>jwt.sign({ id: user.id }, process.env.JWT_SECRET, { expiresIn: "1h" })\<close>.
\<close>

definition issue :: "env \<Rightarrow> nat \<Rightarrow> jsval \<Rightarrow> js_error + token" where
  "issue e now uid = jwt_sign (hmac e) (jwt_secret e) now uid expiresIn"

text \<open>Verification under the same secret and primitive.\<close>

definition verify :: "env \<Rightarrow> nat \<Rightarrow> token \<Rightarrow> verdict" where
  "verify e now t = jwt_verify (hmac e) (jwt_secret e) now t"

section \<open>The route handlers\<close>

text \<open>
  Every handler is \<^verbatim>\<open>try { ... } catch(err) { next(err); }\<close>. The handlers of
  \<^verbatim>\<open>POST /\<close> and \<^verbatim>\<open>POST /login\<close> take \<^verbatim>\<open>(req, res, next)\<close>, so their catch block
  passes the error on. The handlers of \<^verbatim>\<open>GET /\<close>, \<^verbatim>\<open>GET /:id\<close>, \<^verbatim>\<open>PUT /:id\<close> and
  \<^verbatim>\<open>DELETE /:id\<close> take \<^verbatim>\<open>(req, res)\<close> only, and no \<^verbatim>\<open>next\<close> is in scope of the
  module: evaluating \<^verbatim>\<open>next(err)\<close> throws a ReferenceError out of the catch block, which
  rejects the promise of the async handler.
\<close>

definition catch_with_next :: "js_error \<Rightarrow> outcome" where
  "catch_with_next err = Next err"

definition catch_without_next :: "js_error \<Rightarrow> outcome" where
  "catch_without_next err = Unhandled (ReferenceError ''next is not defined'')"

text \<open>The three responses the handlers share: \<^verbatim>\<open>res.sendStatus(404)\<close>, which sends
  the status text as the body, \<^verbatim>\<open>res.send({ result: 200, data: data })\<close> and
  \<^verbatim>\<open>res.status(422).json({errors: errors.array()})\<close>.\<close>

definition not_found :: response where
  "not_found = \<lparr>status = 404, content = StatusText ''Not Found''\<rparr>"

definition ok :: "jsval \<Rightarrow> response" where
  "ok d = \<lparr>status = 200, content = ResultJson d\<rparr>"

definition unprocessable :: "request \<Rightarrow> response" where
  "unprocessable req = \<lparr>status = 422, content = ErrorsJson (JArr (validation_errors req))\<rparr>"

text \<open>\<^verbatim>\<open>router.get("/", verifyToken, async (req, res) => ...)\<close>, the handler proper.\<close>

definition get_users_handler :: "controller \<Rightarrow> request \<Rightarrow> outcome \<times> call list" where
  "get_users_handler ctrl req =
     (case ctrl GetUsers of
        Inl err \<Rightarrow> (catch_without_next err, [GetUsers])
      | Inr d \<Rightarrow> (Sent (ok d), [GetUsers]))"

text \<open>\<^verbatim>\<open>router.get("/:id", idParamValidator, async (req, res) => ...)\<close>\<close>

definition get_user_handler :: "controller \<Rightarrow> request \<Rightarrow> outcome \<times> call list" where
  "get_user_handler ctrl req =
     (if validation_errors req = [] then
        (case ctrl (GetUser (params_id req)) of
           Inl err \<Rightarrow> (catch_without_next err, [GetUser (params_id req)])
         | Inr d \<Rightarrow>
             (if \<not> truthy d then Sent not_found else Sent (ok d), [GetUser (params_id req)]))
      else (Sent (unprocessable req), []))"

text \<open>\<^verbatim>\<open>router.post("/", userValidator, async (req, res, next) => ...)\<close>\<close>

definition post_user_handler :: "env \<Rightarrow> controller \<Rightarrow> request \<Rightarrow> outcome \<times> call list" where
  "post_user_handler e ctrl req =
     (if validation_errors req = [] then
        (case hashSync e (field (body req) ''password'') saltRounds of
           Inl err \<Rightarrow> (catch_with_next err, [])
         | Inr h \<Rightarrow>
             (let user = JObj (assign (body req) ''password'' h) in
              case ctrl (CreateUser user) of
                Inl err \<Rightarrow> (catch_with_next err, [CreateUser user])
              | Inr d \<Rightarrow> (Sent (ok d), [CreateUser user])))
      else (Sent (unprocessable req), []))"

text \<open>\<^verbatim>\<open>router.post("/login", userLoginValidator, async (req, res, next) => ...)\<close>.
  The validation result is read, but the lookup is made whatever it holds.\<close>

text \<open>The branch \<^verbatim>\<open>if(user) { ... }\<close> of the login handler: the password check and
  the issuing of the token.\<close>

definition login_checked :: "env \<Rightarrow> nat \<Rightarrow> request \<Rightarrow> jsval \<Rightarrow> outcome" where
  "login_checked e now req user =
     (case member user ''password'' of
        Inl err \<Rightarrow> catch_with_next err
      | Inr h \<Rightarrow>
          (case compareSync e (field (body req) ''password'') h of
             Inl err \<Rightarrow> catch_with_next err
           | Inr True \<Rightarrow>
               (case member user ''id'' of
                  Inl err \<Rightarrow> catch_with_next err
                | Inr uid \<Rightarrow>
                    (case issue e now uid of
                       Inl err \<Rightarrow> catch_with_next err
                     | Inr t \<Rightarrow> Sent \<lparr>status = 200, content = LoginJson t user\<rparr>))
           | Inr False \<Rightarrow>
               Sent \<lparr>status = 404,
                     content = ErrorsJson (JArr [JStr ''Invalid email or password''])\<rparr>))"

definition login_handler :: "env \<Rightarrow> controller \<Rightarrow> nat \<Rightarrow> request \<Rightarrow> outcome \<times> call list" where
  "login_handler e ctrl now req =
     (let errors = validation_errors req;
          lookup = GetUserByEmail (field (body req) ''email'')
      in case ctrl lookup of
           Inl err \<Rightarrow> (catch_with_next err, [lookup])
         | Inr user \<Rightarrow>
             (if truthy user then login_checked e now req user
              else Sent \<lparr>status = 404, content = ErrorsJson (JArr errors)\<rparr>,
              [lookup]))"

text \<open>\<^verbatim>\<open>router.put("/:id", userUpdateValidator, async (req, res) => ...)\<close>\<close>

definition put_user_handler :: "controller \<Rightarrow> request \<Rightarrow> outcome \<times> call list" where
  "put_user_handler ctrl req =
     (if validation_errors req = [] then
        (let update = UpdateUser (params_id req) (JObj (body req)) in
         case ctrl update of
           Inl err \<Rightarrow> (catch_without_next err, [update])
         | Inr d \<Rightarrow>
             (case index0 d of
                Inl err \<Rightarrow> (catch_without_next err, [update])
              | Inr n \<Rightarrow> (if n = JNum 0 then Sent not_found else Sent (ok d), [update])))
      else (Sent (unprocessable req), []))"

text \<open>\<^verbatim>\<open>router.delete("/:id", idParamValidator, async (req, res) => ...)\<close>\<close>

definition delete_user_handler :: "controller \<Rightarrow> request \<Rightarrow> outcome \<times> call list" where
  "delete_user_handler ctrl req =
     (if validation_errors req = [] then
        (case ctrl (DeleteUser (params_id req)) of
           Inl err \<Rightarrow> (catch_without_next err, [DeleteUser (params_id req)])
         | Inr d \<Rightarrow>
             (if \<not> truthy d then Sent not_found else Sent (ok d), [DeleteUser (params_id req)]))
      else (Sent (unprocessable req), []))"

section \<open>Authorization middleware\<close>

datatype auth_state = Authenticated jsval | Unauthorized

text \<open>
  Modelled from the spec: \<^verbatim>\<open>auth/authMiddleware.js\<close> is not part of the sources.
  Section 4.3: the token is taken from the request; if it is absent or verification
  rejects it, the request is rejected; otherwise the resolved identity is attached and
  the request proceeds.
\<close>

definition verifyToken :: "env \<Rightarrow> nat \<Rightarrow> request \<Rightarrow> auth_state" where
  "verifyToken e now req =
     (case auth_token req of
        None \<Rightarrow> Unauthorized
      | Some t \<Rightarrow>
          (case verify e now t of
             Rejected \<Rightarrow> Unauthorized
           | Verified uid \<Rightarrow> Authenticated uid))"

text \<open>
  Modelled from the spec: the response of a rejected request. Section 7: unauthorized is
  status 401 with no further detail.
\<close>

definition unauthorized :: response where
  "unauthorized = \<lparr>status = 401, content = StatusText ''Unauthorized''\<rparr>"

text \<open>The route \<^verbatim>\<open>GET /api/users\<close>: the middleware, then the handler.\<close>

definition get_users_route :: "env \<Rightarrow> controller \<Rightarrow> nat \<Rightarrow> request \<Rightarrow> outcome \<times> call list" where
  "get_users_route e ctrl now req =
     (case verifyToken e now req of
        Unauthorized \<Rightarrow> (Sent unauthorized, [])
      | Authenticated uid \<Rightarrow> get_users_handler ctrl req)"

section \<open>Reading an outcome\<close>

fun sent_status :: "outcome \<Rightarrow> nat option" where
  "sent_status (Sent r) = Some (status r)"
| "sent_status (Next err) = None"
| "sent_status (Unhandled err) = None"

text \<open>The token of a login response (\<^verbatim>\<open>data.token\<close>) and its user object
  (\<^verbatim>\<open>data.user\<close>).\<close>

fun sent_token :: "outcome \<Rightarrow> token option" where
  "sent_token (Sent r) = (case content r of LoginJson t u \<Rightarrow> Some t | _ \<Rightarrow> None)"
| "sent_token (Next err) = None"
| "sent_token (Unhandled err) = None"

fun sent_user :: "outcome \<Rightarrow> jsval option" where
  "sent_user (Sent r) = (case content r of LoginJson t u \<Rightarrow> Some u | _ \<Rightarrow> None)"
| "sent_user (Next err) = None"
| "sent_user (Unhandled err) = None"

text \<open>Whether a body is a JSON object with an \<^verbatim>\<open>errors\<close> key.\<close>

fun has_errors_key :: "content \<Rightarrow> bool" where
  "has_errors_key (ErrorsJson e) = True"
| "has_errors_key c = False"

section \<open>Sample collaborators and requests\<close>

text \<open>
  Concrete stand-ins on which the theorems below are exercised: a user record as the
  persistence layer holds it, a controller over a store with that one user, a controller
  whose every call throws, and an environment whose hash of \<open>p\<close> is \<open>h:p\<close> and whose
  signature is the secret itself.
\<close>

definition sample_user :: jsval where
  "sample_user =
     JObj [(''id'', JNum 1), (''name'', JStr ''John Doe''),
           (''email'', JStr ''john@dudes.com''), (''password'', JStr ''h:password'')]"

definition sample_ctrl :: controller where
  "sample_ctrl c =
     (case c of
        GetUsers \<Rightarrow> Inr (JArr [sample_user])
      | GetUser i \<Rightarrow> Inr (if i = JStr ''1'' then sample_user else JNull)
      | CreateUser u \<Rightarrow> Inr u
      | GetUserByEmail m \<Rightarrow> Inr (if m = JStr ''john@dudes.com'' then sample_user else JNull)
      | UpdateUser i u \<Rightarrow> Inr (JArr [JNum (if i = JStr ''1'' then 1 else 0)])
      | DeleteUser i \<Rightarrow> Inr (JNum (if i = JStr ''1'' then 1 else 0)))"

definition failing_ctrl :: controller where
  "failing_ctrl c = Inl (Thrown ''connect ECONNREFUSED'')"

definition sample_env :: env where
  "sample_env =
     \<lparr>jwt_secret = Some ''s3cret'',
      hmac = (\<lambda>k c. k),
      hashSync = (\<lambda>d r. case d of JStr p \<Rightarrow> Inr (JStr (''h:'' @ p))
                           | _ \<Rightarrow> Inl (Thrown ''data and salt arguments required'')),
      compareSync = (\<lambda>d h. case d of JStr p \<Rightarrow> Inr (h = JStr (''h:'' @ p))
                              | _ \<Rightarrow> Inl (Thrown ''data and hash arguments required''))\<rparr>"

definition login_request :: "string \<Rightarrow> string \<Rightarrow> request" where
  "login_request m p =
     \<lparr>params_id = JUndefined, body = [(''email'', JStr m), (''password'', JStr p)],
      auth_token = None, validation_errors = []\<rparr>"

definition id_request :: "string \<Rightarrow> request" where
  "id_request i = \<lparr>params_id = JStr i, body = [], auth_token = None, validation_errors = []\<rparr>"

definition list_request :: "token option \<Rightarrow> request" where
  "list_request t =
     \<lparr>params_id = JUndefined, body = [], auth_token = t, validation_errors = []\<rparr>"

text \<open>A login request that the validator rejects: the email is not an email address
  and the password is empty.\<close>

definition invalid_login_request :: request where
  "invalid_login_request =
     \<lparr>params_id = JUndefined,
      body = [(''email'', JStr ''nobody''), (''password'', JStr [])],
      auth_token = None,
      validation_errors =
        [JObj [(''type'', JStr ''field''), (''value'', JStr ''nobody''),
               (''msg'', JStr ''Invalid value''), (''path'', JStr ''email''),
               (''location'', JStr ''body'')],
         JObj [(''type'', JStr ''field''), (''value'', JStr []),
               (''msg'', JStr ''Invalid value''), (''path'', JStr ''password''),
               (''location'', JStr ''body'')]]\<rparr>"

definition create_request :: request where
  "create_request =
     \<lparr>params_id = JUndefined,
      body = [(''name'', JStr ''John Doe''), (''email'', JStr ''john@dudes.com''),
              (''password'', JStr ''password'')],
      auth_token = None, validation_errors = []\<rparr>"

text \<open>The token that the sample environment issues for user 1 at time 100.\<close>

definition sample_token :: token where
  "sample_token = \<lparr>claim_id = JNum 1, iat = 100, exp = 3700, signature = ''s3cret''\<rparr>"

section \<open>Auxiliary facts\<close>

lemma truthy_member: "truthy u \<Longrightarrow> \<exists>h. member u k = Inr h"
  by (cases u) auto

lemmas handler_defs =
  login_handler_def login_checked_def get_users_handler_def get_user_handler_def
  post_user_handler_def put_user_handler_def delete_user_handler_def get_users_route_def
  catch_with_next_def catch_without_next_def ok_def not_found_def unprocessable_def
  unauthorized_def verifyToken_def

lemmas token_defs = issue_def verify_def jwt_sign_def jwt_verify_def expiresIn_def

lemmas sample_defs =
  sample_env_def sample_ctrl_def sample_user_def failing_ctrl_def login_request_def
  id_request_def list_request_def invalid_login_request_def create_request_def
  sample_token_def field_def saltRounds_def

lemma login_unknown_email:
  assumes "ctrl (GetUserByEmail (field (body req) ''email'')) = Inr user" and "\<not> truthy user"
  shows "fst (login_handler e ctrl now req)
         = Sent \<lparr>status = 404, content = ErrorsJson (JArr (validation_errors req))\<rparr>"
  using assms by (simp add: login_handler_def Let_def)

lemma login_wrong_password:
  assumes "ctrl (GetUserByEmail (field (body req) ''email'')) = Inr user" and "truthy user"
    and "member user ''password'' = Inr h"
    and "compareSync e (field (body req) ''password'') h = Inr False"
  shows "fst (login_handler e ctrl now req)
         = Sent \<lparr>status = 404, content = ErrorsJson (JArr [JStr ''Invalid email or password''])\<rparr>"
  using assms by (simp add: login_handler_def login_checked_def Let_def)

lemma login_success:
  assumes "ctrl (GetUserByEmail (field (body req) ''email'')) = Inr user" and "truthy user"
    and "member user ''password'' = Inr h"
    and "compareSync e (field (body req) ''password'') h = Inr True"
    and "member user ''id'' = Inr uid"
    and "issue e now uid = Inr t"
  shows "fst (login_handler e ctrl now req) = Sent \<lparr>status = 200, content = LoginJson t user\<rparr>"
  using assms by (simp add: login_handler_def login_checked_def Let_def)

lemma issue_configured:
  assumes "jwt_secret e = Some k"
  shows "issue e now uid
         = Inr \<lparr>claim_id = uid, iat = now, exp = now + 3600,
                signature = hmac e k (uid, now, now + 3600)\<rparr>"
  using assms by (simp add: token_defs)

lemma login_sent_cases:
  assumes "fst (login_handler e ctrl now req) = Sent r"
  shows "(\<exists>user. ctrl (GetUserByEmail (field (body req) ''email'')) = Inr user \<and> \<not> truthy user
            \<and> r = \<lparr>status = 404, content = ErrorsJson (JArr (validation_errors req))\<rparr>)
       \<or> (\<exists>user h. ctrl (GetUserByEmail (field (body req) ''email'')) = Inr user \<and> truthy user
            \<and> member user ''password'' = Inr h
            \<and> compareSync e (field (body req) ''password'') h = Inr False
            \<and> r = \<lparr>status = 404, content = ErrorsJson (JArr [JStr ''Invalid email or password''])\<rparr>)
       \<or> (\<exists>user h uid t. ctrl (GetUserByEmail (field (body req) ''email'')) = Inr user \<and> truthy user
            \<and> member user ''password'' = Inr h
            \<and> compareSync e (field (body req) ''password'') h = Inr True
            \<and> member user ''id'' = Inr uid \<and> issue e now uid = Inr t
            \<and> r = \<lparr>status = 200, content = LoginJson t user\<rparr>)"
  using assms
  by (auto simp: login_handler_def login_checked_def catch_with_next_def Let_def
      split: sum.splits bool.splits if_splits)

lemma login_never_unhandled: "fst (login_handler e ctrl now req) \<noteq> Unhandled err"
  by (auto simp: login_handler_def login_checked_def catch_with_next_def Let_def
      split: sum.splits bool.splits if_splits)

lemma login_lookup_throws:
  assumes "ctrl (GetUserByEmail (field (body req) ''email'')) = Inl err"
  shows "fst (login_handler e ctrl now req) = Next err"
  using assms by (simp add: login_handler_def catch_with_next_def Let_def)

lemma login_compare_throws:
  assumes "ctrl (GetUserByEmail (field (body req) ''email'')) = Inr user" and "truthy user"
    and "member user ''password'' = Inr h"
    and "compareSync e (field (body req) ''password'') h = Inl err"
  shows "fst (login_handler e ctrl now req) = Next err"
  using assms by (simp add: login_handler_def login_checked_def catch_with_next_def Let_def)

lemma login_issue_throws:
  assumes "ctrl (GetUserByEmail (field (body req) ''email'')) = Inr user" and "truthy user"
    and "member user ''password'' = Inr h"
    and "compareSync e (field (body req) ''password'') h = Inr True"
    and "member user ''id'' = Inr uid"
    and "issue e now uid = Inl err"
  shows "fst (login_handler e ctrl now req) = Next err"
  using assms by (simp add: login_handler_def login_checked_def catch_with_next_def Let_def)

lemma login_next_cases:
  assumes "fst (login_handler e ctrl now req) = Next err"
  shows "ctrl (GetUserByEmail (field (body req) ''email'')) = Inl err
       \<or> (\<exists>user h. ctrl (GetUserByEmail (field (body req) ''email'')) = Inr user
             \<and> member user ''password'' = Inr h
             \<and> compareSync e (field (body req) ''password'') h = Inl err)
       \<or> (\<exists>user uid. ctrl (GetUserByEmail (field (body req) ''email'')) = Inr user
             \<and> member user ''id'' = Inr uid \<and> issue e now uid = Inl err)"
proof (cases "ctrl (GetUserByEmail (field (body req) ''email''))")
  case (Inl a)
  with assms show ?thesis by (simp add: login_handler_def catch_with_next_def Let_def)
next
  case (Inr user)
  with assms have t: "truthy user" and c: "login_checked e now req user = Next err"
    by (auto simp: login_handler_def Let_def split: if_splits)
  from t obtain h where h: "member user ''password'' = Inr h" using truthy_member by blast
  from t obtain uid where u: "member user ''id'' = Inr uid" using truthy_member by blast
  from c h u Inr show ?thesis
    by (auto simp: login_checked_def catch_with_next_def split: sum.splits bool.splits)
qed

lemma verify_expired: "exp t \<le> now \<Longrightarrow> verify e now t = Rejected"
  by (simp add: token_defs split: option.splits)

lemma verify_tampered:
  "jwt_secret e = Some k \<Longrightarrow> signature t \<noteq> hmac e k (claim_id t, iat t, exp t)
     \<Longrightarrow> verify e now t = Rejected"
  by (simp add: token_defs)

lemma verify_fresh:
  "jwt_secret e = Some k \<Longrightarrow> issue e issued uid = Inr t \<Longrightarrow> now < issued + 60 * 60
     \<Longrightarrow> verify e now t = Verified uid"
  by (auto simp: token_defs)

lemma get_users_sent:
  "fst (get_users_handler ctrl req) = Sent r \<Longrightarrow> \<exists>d. ctrl GetUsers = Inr d \<and> r = ok d"
  by (auto simp: get_users_handler_def catch_without_next_def split: sum.splits)

lemma get_user_sent_ok:
  "fst (get_user_handler ctrl req) = Sent r \<Longrightarrow> status r = 200
     \<Longrightarrow> \<exists>d. ctrl (GetUser (params_id req)) = Inr d \<and> r = ok d"
  by (auto simp: get_user_handler_def catch_without_next_def not_found_def unprocessable_def
      split: sum.splits if_splits)

lemma post_user_sent_ok:
  "fst (post_user_handler e ctrl req) = Sent r \<Longrightarrow> status r = 200
     \<Longrightarrow> \<exists>h d. hashSync e (field (body req) ''password'') saltRounds = Inr h
            \<and> ctrl (CreateUser (JObj (assign (body req) ''password'' h))) = Inr d \<and> r = ok d"
  by (auto simp: post_user_handler_def catch_with_next_def unprocessable_def Let_def
      split: sum.splits if_splits)

section \<open>The login flow\<close>

text \<open>
  Claim C2 says that every login request is answered 404 or 200 and that the login flow
  produces no other status. On the sample store the credentials of John Doe match, but
  with the signing secret unset the signing throws: the handler sends nothing, so the
  status is not 200, and passes the error to \<^verbatim>\<open>next\<close>. With a controller whose lookup
  throws, the handler likewise sends neither 404 nor 200 and passes the error on.
\<close>

theorem login_forwards_thrown_errors:
  "sample_ctrl (GetUserByEmail (field (body (login_request ''john@dudes.com'' ''password'')) ''email''))
     = Inr sample_user
   \<and> member sample_user ''password'' = Inr (JStr ''h:password'')
   \<and> compareSync (sample_env\<lparr>jwt_secret := None\<rparr>)
        (field (body (login_request ''john@dudes.com'' ''password'')) ''password'')
        (JStr ''h:password'') = Inr True
   \<and> login_handler (sample_env\<lparr>jwt_secret := None\<rparr>) sample_ctrl 100
        (login_request ''john@dudes.com'' ''password'')
       = (Next (Thrown ''secretOrPrivateKey must have a value''),
          [GetUserByEmail (JStr ''john@dudes.com'')])
   \<and> sent_status (fst (login_handler (sample_env\<lparr>jwt_secret := None\<rparr>) sample_ctrl 100
        (login_request ''john@dudes.com'' ''password''))) \<noteq> Some 200
   \<and> login_handler sample_env failing_ctrl 100 (login_request ''john@dudes.com'' ''password'')
       = (Next (Thrown ''connect ECONNREFUSED''), [GetUserByEmail (JStr ''john@dudes.com'')])
   \<and> sent_status (fst (login_handler sample_env failing_ctrl 100
        (login_request ''john@dudes.com'' ''password''))) = None"
  by (simp add: sample_defs handler_defs token_defs)

text \<open>
  Claim C2, amended. For every login request: if the lookup by email returns no user
  record, the response status is 404; if a record is returned and the comparison reports
  that the password does not match the stored hash, the status is 404; if the comparison
  reports a match and the token is issued, the status is 200 and the body holds that
  token. The handler itself sends no other status and never leaves an error unhandled.
  When the lookup, the comparison or the signing throws, the handler sends nothing and
  passes the error to \<^verbatim>\<open>next\<close>; it calls \<^verbatim>\<open>next\<close> in no other case.
\<close>

theorem login_statuses:
  "(ctrl (GetUserByEmail (field (body req) ''email'')) = Inr user \<and> \<not> truthy user
      \<longrightarrow> sent_status (fst (login_handler e ctrl now req)) = Some 404)
   \<and> (ctrl (GetUserByEmail (field (body req) ''email'')) = Inr user \<and> truthy user
        \<and> member user ''password'' = Inr h
        \<and> compareSync e (field (body req) ''password'') h = Inr False
      \<longrightarrow> sent_status (fst (login_handler e ctrl now req)) = Some 404)
   \<and> (ctrl (GetUserByEmail (field (body req) ''email'')) = Inr user \<and> truthy user
        \<and> member user ''password'' = Inr h
        \<and> compareSync e (field (body req) ''password'') h = Inr True
        \<and> member user ''id'' = Inr uid \<and> issue e now uid = Inr t
      \<longrightarrow> sent_status (fst (login_handler e ctrl now req)) = Some 200
          \<and> sent_token (fst (login_handler e ctrl now req)) = Some t)
   \<and> (\<forall>r. fst (login_handler e ctrl now req) = Sent r \<longrightarrow> status r = 200 \<or> status r = 404)
   \<and> (\<forall>err. fst (login_handler e ctrl now req) \<noteq> Unhandled err)
   \<and> (ctrl (GetUserByEmail (field (body req) ''email'')) = Inl err
      \<longrightarrow> fst (login_handler e ctrl now req) = Next err)
   \<and> (ctrl (GetUserByEmail (field (body req) ''email'')) = Inr user \<and> truthy user
        \<and> member user ''password'' = Inr h
        \<and> compareSync e (field (body req) ''password'') h = Inl err
      \<longrightarrow> fst (login_handler e ctrl now req) = Next err)
   \<and> (ctrl (GetUserByEmail (field (body req) ''email'')) = Inr user \<and> truthy user
        \<and> member user ''password'' = Inr h
        \<and> compareSync e (field (body req) ''password'') h = Inr True
        \<and> member user ''id'' = Inr uid \<and> issue e now uid = Inl err
      \<longrightarrow> fst (login_handler e ctrl now req) = Next err)
   \<and> (\<forall>x. fst (login_handler e ctrl now req) = Next x \<longrightarrow>
         ctrl (GetUserByEmail (field (body req) ''email'')) = Inl x
         \<or> (\<exists>u p. ctrl (GetUserByEmail (field (body req) ''email'')) = Inr u
               \<and> member u ''password'' = Inr p
               \<and> compareSync e (field (body req) ''password'') p = Inl x)
         \<or> (\<exists>u i. ctrl (GetUserByEmail (field (body req) ''email'')) = Inr u
               \<and> member u ''id'' = Inr i \<and> issue e now i = Inl x))"
proof (intro conjI impI allI)
  assume "ctrl (GetUserByEmail (field (body req) ''email'')) = Inr user \<and> \<not> truthy user"
  then show "sent_status (fst (login_handler e ctrl now req)) = Some 404"
    by (simp add: login_unknown_email)
next
  assume "ctrl (GetUserByEmail (field (body req) ''email'')) = Inr user \<and> truthy user
        \<and> member user ''password'' = Inr h
        \<and> compareSync e (field (body req) ''password'') h = Inr False"
  then show "sent_status (fst (login_handler e ctrl now req)) = Some 404"
    by (simp add: login_wrong_password)
next
  assume a: "ctrl (GetUserByEmail (field (body req) ''email'')) = Inr user \<and> truthy user
        \<and> member user ''password'' = Inr h
        \<and> compareSync e (field (body req) ''password'') h = Inr True
        \<and> member user ''id'' = Inr uid \<and> issue e now uid = Inr t"
  then have s: "fst (login_handler e ctrl now req)
                = Sent \<lparr>status = 200, content = LoginJson t user\<rparr>"
    by (simp add: login_success)
  show "sent_status (fst (login_handler e ctrl now req)) = Some 200" by (simp add: s)
  show "sent_token (fst (login_handler e ctrl now req)) = Some t" by (simp add: s)
next
  fix r assume "fst (login_handler e ctrl now req) = Sent r"
  from login_sent_cases[OF this] show "status r = 200 \<or> status r = 404" by auto
next
  fix err show "fst (login_handler e ctrl now req) \<noteq> Unhandled err"
    by (rule login_never_unhandled)
next
  assume "ctrl (GetUserByEmail (field (body req) ''email'')) = Inl err"
  then show "fst (login_handler e ctrl now req) = Next err" by (rule login_lookup_throws)
next
  assume "ctrl (GetUserByEmail (field (body req) ''email'')) = Inr user \<and> truthy user
        \<and> member user ''password'' = Inr h
        \<and> compareSync e (field (body req) ''password'') h = Inl err"
  then show "fst (login_handler e ctrl now req) = Next err"
    using login_compare_throws [of ctrl req user h e err now] by simp
next
  assume "ctrl (GetUserByEmail (field (body req) ''email'')) = Inr user \<and> truthy user
        \<and> member user ''password'' = Inr h
        \<and> compareSync e (field (body req) ''password'') h = Inr True
        \<and> member user ''id'' = Inr uid \<and> issue e now uid = Inl err"
  then show "fst (login_handler e ctrl now req) = Next err"
    using login_issue_throws [of ctrl req user h e uid now err] by simp
next
  fix x assume "fst (login_handler e ctrl now req) = Next x"
  then show "ctrl (GetUserByEmail (field (body req) ''email'')) = Inl x
         \<or> (\<exists>u p. ctrl (GetUserByEmail (field (body req) ''email'')) = Inr u
               \<and> member u ''password'' = Inr p
               \<and> compareSync e (field (body req) ''password'') p = Inl x)
         \<or> (\<exists>u i. ctrl (GetUserByEmail (field (body req) ''email'')) = Inr u
               \<and> member u ''id'' = Inr i \<and> issue e now i = Inl x)"
    by (rule login_next_cases)
qed

text \<open>
  The amended claim C2 on the sample store: an unknown email, a wrong password, the
  right password, a lookup that throws and a signing that throws.
\<close>

theorem login_statuses_witness:
  "sample_ctrl (GetUserByEmail (field (body (login_request ''x@y.z'' ''password'')) ''email''))
     = Inr JNull
   \<and> \<not> truthy JNull
   \<and> sent_status (fst (login_handler sample_env sample_ctrl 100
         (login_request ''x@y.z'' ''password''))) = Some 404
   \<and> sample_ctrl (GetUserByEmail (field (body (login_request ''john@dudes.com'' ''wrong'')) ''email''))
     = Inr sample_user
   \<and> truthy sample_user
   \<and> member sample_user ''password'' = Inr (JStr ''h:password'')
   \<and> compareSync sample_env (field (body (login_request ''john@dudes.com'' ''wrong'')) ''password'')
         (JStr ''h:password'') = Inr False
   \<and> sent_status (fst (login_handler sample_env sample_ctrl 100
         (login_request ''john@dudes.com'' ''wrong''))) = Some 404
   \<and> compareSync sample_env
         (field (body (login_request ''john@dudes.com'' ''password'')) ''password'')
         (JStr ''h:password'') = Inr True
   \<and> member sample_user ''id'' = Inr (JNum 1)
   \<and> issue sample_env 100 (JNum 1) = Inr sample_token
   \<and> sent_status (fst (login_handler sample_env sample_ctrl 100
         (login_request ''john@dudes.com'' ''password''))) = Some 200
   \<and> sent_token (fst (login_handler sample_env sample_ctrl 100
         (login_request ''john@dudes.com'' ''password''))) = Some sample_token
   \<and> failing_ctrl (GetUserByEmail (field (body (login_request ''john@dudes.com'' ''password'')) ''email''))
     = Inl (Thrown ''connect ECONNREFUSED'')
   \<and> fst (login_handler sample_env failing_ctrl 100 (login_request ''john@dudes.com'' ''password''))
     = Next (Thrown ''connect ECONNREFUSED'')
   \<and> issue (sample_env\<lparr>jwt_secret := None\<rparr>) 100 (JNum 1)
     = Inl (Thrown ''secretOrPrivateKey must have a value'')
   \<and> fst (login_handler (sample_env\<lparr>jwt_secret := None\<rparr>) sample_ctrl 100
        (login_request ''john@dudes.com'' ''password''))
     = Next (Thrown ''secretOrPrivateKey must have a value'')"
proof -
  let ?unknown = "login_request ''x@y.z'' ''password''"
  let ?wrong = "login_request ''john@dudes.com'' ''wrong''"
  let ?right = "login_request ''john@dudes.com'' ''password''"
  let ?unset = "sample_env\<lparr>jwt_secret := None\<rparr>"
  have l1: "sample_ctrl (GetUserByEmail (field (body ?unknown) ''email'')) = Inr JNull"
    by (simp add: sample_ctrl_def login_request_def field_def)
  have l2: "sample_ctrl (GetUserByEmail (field (body ?wrong) ''email'')) = Inr sample_user"
    by (simp add: sample_ctrl_def login_request_def field_def)
  have l3: "sample_ctrl (GetUserByEmail (field (body ?right) ''email'')) = Inr sample_user"
    by (simp add: sample_ctrl_def login_request_def field_def)
  have l4: "failing_ctrl (GetUserByEmail (field (body ?right) ''email''))
            = Inl (Thrown ''connect ECONNREFUSED'')"
    by (simp add: failing_ctrl_def)
  have n: "\<not> truthy JNull" by simp
  have u: "truthy sample_user" by (simp add: sample_user_def)
  have p: "member sample_user ''password'' = Inr (JStr ''h:password'')"
    by (simp add: sample_user_def field_def)
  have d: "member sample_user ''id'' = Inr (JNum 1)"
    by (simp add: sample_user_def field_def)
  have w: "compareSync sample_env (field (body ?wrong) ''password'') (JStr ''h:password'')
           = Inr False"
    by (simp add: sample_env_def login_request_def field_def)
  have r: "compareSync sample_env (field (body ?right) ''password'') (JStr ''h:password'')
           = Inr True"
    by (simp add: sample_env_def login_request_def field_def)
  have r': "compareSync ?unset (field (body ?right) ''password'') (JStr ''h:password'')
           = Inr True"
    by (simp add: sample_env_def login_request_def field_def)
  have i: "issue sample_env 100 (JNum 1) = Inr sample_token"
    by (simp add: token_defs sample_env_def sample_token_def)
  have i': "issue ?unset 100 (JNum 1) = Inl (Thrown ''secretOrPrivateKey must have a value'')"
    by (simp add: token_defs sample_env_def)
  have c1: "sent_status (fst (login_handler sample_env sample_ctrl 100 ?unknown)) = Some 404"
    using login_statuses [where ctrl = sample_ctrl and req = ?unknown and user = JNull
        and e = sample_env and now = 100, THEN conjunct1] l1 n
    by blast
  have c2: "sent_status (fst (login_handler sample_env sample_ctrl 100 ?wrong)) = Some 404"
    using login_statuses [where ctrl = sample_ctrl and req = ?wrong and user = sample_user
        and e = sample_env and h = "JStr ''h:password''" and now = 100,
        THEN conjunct2, THEN conjunct1] l2 u p w
    by blast
  have c3: "sent_status (fst (login_handler sample_env sample_ctrl 100 ?right)) = Some 200
            \<and> sent_token (fst (login_handler sample_env sample_ctrl 100 ?right)) = Some sample_token"
    using login_statuses [where ctrl = sample_ctrl and req = ?right and user = sample_user
        and e = sample_env and h = "JStr ''h:password''" and uid = "JNum 1"
        and t = sample_token and now = 100,
        THEN conjunct2, THEN conjunct2, THEN conjunct1] l3 u p r d i
    by blast
  have c4: "fst (login_handler sample_env failing_ctrl 100 ?right)
            = Next (Thrown ''connect ECONNREFUSED'')"
    using login_statuses [where ctrl = failing_ctrl and req = ?right and e = sample_env
        and err = "Thrown ''connect ECONNREFUSED''" and now = 100,
        THEN conjunct2, THEN conjunct2, THEN conjunct2, THEN conjunct2, THEN conjunct2,
        THEN conjunct1] l4
    by blast
  have c5: "fst (login_handler ?unset sample_ctrl 100 ?right)
            = Next (Thrown ''secretOrPrivateKey must have a value'')"
    using login_statuses [where ctrl = sample_ctrl and req = ?right and user = sample_user
        and e = ?unset and h = "JStr ''h:password''" and uid = "JNum 1"
        and err = "Thrown ''secretOrPrivateKey must have a value''" and now = 100,
        THEN conjunct2, THEN conjunct2, THEN conjunct2, THEN conjunct2, THEN conjunct2,
        THEN conjunct2, THEN conjunct2, THEN conjunct1] l3 u p r' d i'
    by blast
  show ?thesis
    by (intro conjI l1 l2 l4 n u p d w r i i' c1 c2 c4 c5 c3 [THEN conjunct1]
        c3 [THEN conjunct2])
qed

text \<open>
  Claim C5. For login requests whose input passed validation, the two failures answer
  404 with different bodies: an unknown email gives the validator's error array, which is
  empty, and a known email with a wrong password gives the literal list with the one
  message \<^verbatim>\<open>Invalid email or password\<close>. The two responses differ, so a client can
  tell the causes apart.
\<close>

theorem login_failures_distinguishable:
  assumes "validation_errors req_a = []"
    and "ctrl_a (GetUserByEmail (field (body req_a) ''email'')) = Inr none" and "\<not> truthy none"
    and "validation_errors req_b = []"
    and "ctrl_b (GetUserByEmail (field (body req_b) ''email'')) = Inr user" and "truthy user"
    and "member user ''password'' = Inr h"
    and "compareSync e_b (field (body req_b) ''password'') h = Inr False"
  shows "fst (login_handler e_a ctrl_a now_a req_a)
           = Sent \<lparr>status = 404, content = ErrorsJson (JArr [])\<rparr>
       \<and> fst (login_handler e_b ctrl_b now_b req_b)
           = Sent \<lparr>status = 404, content = ErrorsJson (JArr [JStr ''Invalid email or password''])\<rparr>
       \<and> fst (login_handler e_a ctrl_a now_a req_a) \<noteq> fst (login_handler e_b ctrl_b now_b req_b)"
proof -
  have a: "fst (login_handler e_a ctrl_a now_a req_a)
           = Sent \<lparr>status = 404, content = ErrorsJson (JArr [])\<rparr>"
    using assms(1-3) login_unknown_email[of ctrl_a req_a none e_a now_a] by simp
  have b: "fst (login_handler e_b ctrl_b now_b req_b)
           = Sent \<lparr>status = 404, content = ErrorsJson (JArr [JStr ''Invalid email or password''])\<rparr>"
    using assms(5-8) by (rule login_wrong_password)
  show ?thesis by (simp add: a b)
qed


text \<open>
  Claim C5 on the sample store: an unknown email against a wrong password.
\<close>

theorem login_failures_distinguishable_witness:
  "validation_errors (login_request ''x@y.z'' ''password'') = []
   \<and> sample_ctrl (GetUserByEmail (field (body (login_request ''x@y.z'' ''password'')) ''email''))
       = Inr JNull
   \<and> \<not> truthy JNull
   \<and> validation_errors (login_request ''john@dudes.com'' ''wrong'') = []
   \<and> sample_ctrl (GetUserByEmail (field (body (login_request ''john@dudes.com'' ''wrong'')) ''email''))
       = Inr sample_user
   \<and> truthy sample_user
   \<and> member sample_user ''password'' = Inr (JStr ''h:password'')
   \<and> compareSync sample_env (field (body (login_request ''john@dudes.com'' ''wrong'')) ''password'')
        (JStr ''h:password'') = Inr False
   \<and> fst (login_handler sample_env sample_ctrl 100 (login_request ''x@y.z'' ''password''))
       = Sent \<lparr>status = 404, content = ErrorsJson (JArr [])\<rparr>
   \<and> fst (login_handler sample_env sample_ctrl 100 (login_request ''john@dudes.com'' ''wrong''))
       = Sent \<lparr>status = 404, content = ErrorsJson (JArr [JStr ''Invalid email or password''])\<rparr>
   \<and> fst (login_handler sample_env sample_ctrl 100 (login_request ''x@y.z'' ''password''))
       \<noteq> fst (login_handler sample_env sample_ctrl 100 (login_request ''john@dudes.com'' ''wrong''))"
proof -
  have h1: "validation_errors (login_request ''x@y.z'' ''password'') = []"
    by (simp add: login_request_def)
  have h2: "sample_ctrl (GetUserByEmail (field (body (login_request ''x@y.z'' ''password'')) ''email''))
       = Inr JNull"
    by (simp add: sample_defs)
  have h3: "\<not> truthy JNull" by simp
  have h4: "validation_errors (login_request ''john@dudes.com'' ''wrong'') = []"
    by (simp add: login_request_def)
  have h5: "sample_ctrl (GetUserByEmail (field (body (login_request ''john@dudes.com'' ''wrong'')) ''email''))
       = Inr sample_user"
    by (simp add: sample_defs)
  have h6: "truthy sample_user" by (simp add: sample_user_def)
  have h7: "member sample_user ''password'' = Inr (JStr ''h:password'')"
    by (simp add: sample_user_def field_def)
  have h8: "compareSync sample_env (field (body (login_request ''john@dudes.com'' ''wrong'')) ''password'')
        (JStr ''h:password'') = Inr False"
    by (simp add: sample_defs)
  show ?thesis
    using login_failures_distinguishable [where req_a = "login_request ''x@y.z'' ''password''"
        and ctrl_a = sample_ctrl and none = JNull and e_a = sample_env and now_a = 100
        and req_b = "login_request ''john@dudes.com'' ''wrong''" and ctrl_b = sample_ctrl
        and user = sample_user and h = "JStr ''h:password''" and e_b = sample_env
        and now_b = 100]
      h1 h2 h3 h4 h5 h6 h7 h8
    by simp
qed

section \<open>The shapes of a 404\<close>

text \<open>
  Claim C10. When the id passes validation and the controller returns nothing (a falsy
  value), \<^verbatim>\<open>GET /:id\<close> and \<^verbatim>\<open>DELETE /:id\<close> answer 404 through
  \<^verbatim>\<open>res.sendStatus\<close>: the body is the status text, not a JSON object with an
  \<^verbatim>\<open>errors\<close> key. Every 404 of the login handler is a JSON object with an
  \<^verbatim>\<open>errors\<close> key.
\<close>

theorem not_found_shapes:
  "(validation_errors req = [] \<and> ctrl (GetUser (params_id req)) = Inr d \<and> \<not> truthy d
      \<longrightarrow> fst (get_user_handler ctrl req) = Sent \<lparr>status = 404, content = StatusText ''Not Found''\<rparr>)
   \<and> (validation_errors req = [] \<and> ctrl (DeleteUser (params_id req)) = Inr d' \<and> \<not> truthy d'
      \<longrightarrow> fst (delete_user_handler ctrl req)
            = Sent \<lparr>status = 404, content = StatusText ''Not Found''\<rparr>)
   \<and> \<not> has_errors_key (StatusText ''Not Found'')
   \<and> (\<forall>r. fst (login_handler e ctrl now req) = Sent r \<and> status r = 404
          \<longrightarrow> has_errors_key (content r))"
proof (intro conjI impI allI)
  fix r assume "fst (login_handler e ctrl now req) = Sent r \<and> status r = 404"
  then show "has_errors_key (content r)"
    using login_sent_cases[of e ctrl now req r] by auto
qed (simp_all add: get_user_handler_def delete_user_handler_def not_found_def)


text \<open>
  Claim C10 on the sample store: user 7 does not exist; a login with a wrong password.
\<close>

theorem not_found_shapes_witness:
  "validation_errors (id_request ''7'') = []
   \<and> sample_ctrl (GetUser (params_id (id_request ''7''))) = Inr JNull
   \<and> \<not> truthy JNull
   \<and> fst (get_user_handler sample_ctrl (id_request ''7''))
       = Sent \<lparr>status = 404, content = StatusText ''Not Found''\<rparr>
   \<and> sample_ctrl (DeleteUser (params_id (id_request ''7''))) = Inr (JNum 0)
   \<and> \<not> truthy (JNum 0)
   \<and> fst (delete_user_handler sample_ctrl (id_request ''7''))
       = Sent \<lparr>status = 404, content = StatusText ''Not Found''\<rparr>
   \<and> fst (login_handler sample_env sample_ctrl 100 (login_request ''john@dudes.com'' ''wrong''))
       = Sent \<lparr>status = 404, content = ErrorsJson (JArr [JStr ''Invalid email or password''])\<rparr>
   \<and> has_errors_key (ErrorsJson (JArr [JStr ''Invalid email or password'']))"
proof -
  have l: "fst (login_handler sample_env sample_ctrl 100 (login_request ''john@dudes.com'' ''wrong''))
       = Sent \<lparr>status = 404, content = ErrorsJson (JArr [JStr ''Invalid email or password''])\<rparr>"
    by (simp add: sample_defs login_handler_def login_checked_def)
  show ?thesis
    using not_found_shapes [where req = "id_request ''7''" and ctrl = sample_ctrl and d = JNull
        and d' = "JNum 0"]
      not_found_shapes [where req = "login_request ''john@dudes.com'' ''wrong''"
        and ctrl = sample_ctrl and e = sample_env and now = 100]
      l
    by (simp add: id_request_def sample_ctrl_def)
qed

section \<open>What a response discloses\<close>

text \<open>
  Claim C1 says that no response body holds the stored password hash and that the user
  object of a successful login has no password field. On the sample store the login of
  John Doe succeeds, and the user object of the response is the stored record, whose
  \<^verbatim>\<open>password\<close> member is the hash that \<^verbatim>\<open>hashSync\<close> produced for his password.
\<close>

theorem login_response_exposes_password_hash:
  "hashSync sample_env (JStr ''password'') saltRounds = Inr (JStr ''h:password'')
   \<and> sent_status (fst (login_handler sample_env sample_ctrl 100
         (login_request ''john@dudes.com'' ''password''))) = Some 200
   \<and> sent_user (fst (login_handler sample_env sample_ctrl 100
         (login_request ''john@dudes.com'' ''password''))) = Some sample_user
   \<and> member sample_user ''password'' = Inr (JStr ''h:password'')"
  by (simp add: sample_defs handler_defs token_defs)

text \<open>
  Claim C1, amended. The handlers hand on what the controller returns and remove no
  member. The user object of a successful login is the record the lookup returned, and
  the comparison succeeded on its \<^verbatim>\<open>password\<close> member. A 404 of the login handler
  holds only the validator's error array or the literal message. The 200 responses of
  listing, fetch and creation hold exactly the controller's result; for creation, the
  controller was given the request body with the password replaced by its hash.
\<close>

theorem success_responses_carry_controller_data:
  "(\<forall>r. fst (login_handler e ctrl now req) = Sent r \<and> status r = 200
       \<longrightarrow> (\<exists>t user h. content r = LoginJson t user
              \<and> ctrl (GetUserByEmail (field (body req) ''email'')) = Inr user
              \<and> member user ''password'' = Inr h
              \<and> compareSync e (field (body req) ''password'') h = Inr True))
   \<and> (\<forall>r. fst (login_handler e ctrl now req) = Sent r \<and> status r = 404
       \<longrightarrow> content r = ErrorsJson (JArr (validation_errors req))
           \<or> content r = ErrorsJson (JArr [JStr ''Invalid email or password'']))
   \<and> (\<forall>r. fst (get_users_handler ctrl req) = Sent r
       \<longrightarrow> (\<exists>d. ctrl GetUsers = Inr d \<and> r = ok d))
   \<and> (\<forall>r. fst (get_user_handler ctrl req) = Sent r \<and> status r = 200
       \<longrightarrow> (\<exists>d. ctrl (GetUser (params_id req)) = Inr d \<and> r = ok d))
   \<and> (\<forall>r. fst (post_user_handler e ctrl req) = Sent r \<and> status r = 200
       \<longrightarrow> (\<exists>h d. hashSync e (field (body req) ''password'') saltRounds = Inr h
              \<and> ctrl (CreateUser (JObj (assign (body req) ''password'' h))) = Inr d
              \<and> r = ok d))"
proof (intro conjI allI impI)
  fix r assume "fst (login_handler e ctrl now req) = Sent r \<and> status r = 200"
  then show "\<exists>t user h. content r = LoginJson t user
              \<and> ctrl (GetUserByEmail (field (body req) ''email'')) = Inr user
              \<and> member user ''password'' = Inr h
              \<and> compareSync e (field (body req) ''password'') h = Inr True"
    using login_sent_cases [of e ctrl now req r] by auto
next
  fix r assume "fst (login_handler e ctrl now req) = Sent r \<and> status r = 404"
  then show "content r = ErrorsJson (JArr (validation_errors req))
           \<or> content r = ErrorsJson (JArr [JStr ''Invalid email or password''])"
    using login_sent_cases [of e ctrl now req r] by auto
next
  fix r assume "fst (get_users_handler ctrl req) = Sent r"
  then show "\<exists>d. ctrl GetUsers = Inr d \<and> r = ok d" by (rule get_users_sent)
next
  fix r assume "fst (get_user_handler ctrl req) = Sent r \<and> status r = 200"
  then show "\<exists>d. ctrl (GetUser (params_id req)) = Inr d \<and> r = ok d"
    using get_user_sent_ok [of ctrl req r] by simp
next
  fix r assume "fst (post_user_handler e ctrl req) = Sent r \<and> status r = 200"
  then show "\<exists>h d. hashSync e (field (body req) ''password'') saltRounds = Inr h
              \<and> ctrl (CreateUser (JObj (assign (body req) ''password'' h))) = Inr d
              \<and> r = ok d"
    using post_user_sent_ok [of e ctrl req r] by simp
qed


text \<open>
  The amended claim C1 on the sample store: login, listing, fetch and creation.
\<close>

theorem success_responses_carry_controller_data_witness:
  "fst (login_handler sample_env sample_ctrl 100 (login_request ''john@dudes.com'' ''password''))
     = Sent \<lparr>status = 200,
             content = LoginJson \<lparr>claim_id = JNum 1, iat = 100, exp = 3700, signature = ''s3cret''\<rparr>
                         sample_user\<rparr>
   \<and> sample_ctrl (GetUserByEmail (field (body (login_request ''john@dudes.com'' ''password'')) ''email''))
     = Inr sample_user
   \<and> member sample_user ''password'' = Inr (JStr ''h:password'')
   \<and> compareSync sample_env
        (field (body (login_request ''john@dudes.com'' ''password'')) ''password'')
        (JStr ''h:password'') = Inr True
   \<and> fst (get_users_handler sample_ctrl (list_request None)) = Sent (ok (JArr [sample_user]))
   \<and> fst (get_user_handler sample_ctrl (id_request ''1'')) = Sent (ok sample_user)
   \<and> fst (post_user_handler sample_env sample_ctrl create_request)
     = Sent (ok (JObj (assign (body create_request) ''password'' (JStr ''h:password''))))
   \<and> field (assign (body create_request) ''password'' (JStr ''h:password'')) ''password''
     = JStr ''h:password''"
  using success_responses_carry_controller_data [where e = sample_env and ctrl = sample_ctrl
      and now = 100 and req = "login_request ''john@dudes.com'' ''password''"]
    success_responses_carry_controller_data [where e = sample_env and ctrl = sample_ctrl
      and req = "list_request None"]
    success_responses_carry_controller_data [where e = sample_env and ctrl = sample_ctrl
      and req = "id_request ''1''"]
    success_responses_carry_controller_data [where e = sample_env and ctrl = sample_ctrl
      and req = create_request]
  by (simp add: sample_defs handler_defs token_defs create_request_def Let_def)

section \<open>Validation and error propagation\<close>

text \<open>
  Claim C3 says that a request on which the validator reports an error is answered 422
  with the error list and never reaches the persistence layer. The login handler reads
  the validation result but does not test it: on a login request with two validation
  errors it looks the user up by email and answers 404. The handler of \<^verbatim>\<open>POST /\<close>
  answers the same input with 422 and makes no call.
\<close>

theorem login_ignores_validation_errors:
  "validation_errors invalid_login_request \<noteq> []
   \<and> login_handler sample_env sample_ctrl 100 invalid_login_request
       = (Sent \<lparr>status = 404,
                content = ErrorsJson (JArr (validation_errors invalid_login_request))\<rparr>,
          [GetUserByEmail (JStr ''nobody'')])
   \<and> post_user_handler sample_env sample_ctrl invalid_login_request
       = (Sent \<lparr>status = 422,
                content = ErrorsJson (JArr (validation_errors invalid_login_request))\<rparr>, [])"
  by (simp add: sample_defs handler_defs)

text \<open>
  Claim C4 says that an error thrown by the persistence layer reaches the generic error
  handler. With a controller whose every call throws, the handlers of \<^verbatim>\<open>GET /\<close> (behind
  a valid token), \<^verbatim>\<open>GET /:id\<close>, \<^verbatim>\<open>PUT /:id\<close> and \<^verbatim>\<open>DELETE /:id\<close> end with
  an unhandled ReferenceError: the error is never passed to \<^verbatim>\<open>next\<close> and nothing is
  sent. The handlers of \<^verbatim>\<open>POST /\<close> and \<^verbatim>\<open>POST /login\<close> pass the error on.
\<close>

theorem undeclared_next_loses_error:
  "verifyToken sample_env 100 (list_request (Some sample_token)) = Authenticated (JNum 1)
   \<and> get_users_route sample_env failing_ctrl 100 (list_request (Some sample_token))
       = (Unhandled (ReferenceError ''next is not defined''), [GetUsers])
   \<and> get_user_handler failing_ctrl (id_request ''1'')
       = (Unhandled (ReferenceError ''next is not defined''), [GetUser (JStr ''1'')])
   \<and> put_user_handler failing_ctrl (id_request ''1'')
       = (Unhandled (ReferenceError ''next is not defined''), [UpdateUser (JStr ''1'') (JObj [])])
   \<and> delete_user_handler failing_ctrl (id_request ''1'')
       = (Unhandled (ReferenceError ''next is not defined''), [DeleteUser (JStr ''1'')])
   \<and> fst (post_user_handler sample_env failing_ctrl create_request)
       = Next (Thrown ''connect ECONNREFUSED'')
   \<and> fst (login_handler sample_env failing_ctrl 100 (login_request ''john@dudes.com'' ''password''))
       = Next (Thrown ''connect ECONNREFUSED'')"
  by (simp add: sample_defs handler_defs token_defs sample_token_def create_request_def)

section \<open>Issuing and verifying tokens\<close>

text \<open>
  Claim C9. With the signing secret configured, issuing a token for a user id returns a
  token whose claim holds exactly that id, whose expiration is the issuance time plus one
  hour (3600 seconds), and whose signature is the one computed over the claim under the
  secret.
\<close>

theorem issue_claim_and_expiry:
  assumes "jwt_secret e = Some k"
  shows "\<exists>t. issue e now uid = Inr t \<and> claim_id t = uid \<and> iat t = now
             \<and> exp t = now + 60 * 60
             \<and> signature t = hmac e k (claim_id t, iat t, exp t)"
  using assms by (simp add: issue_configured)


text \<open>
  Claim C9 on the sample environment: the token for user 1 issued at time 100.
\<close>

theorem issue_claim_and_expiry_witness:
  "jwt_secret sample_env = Some ''s3cret''
   \<and> issue sample_env 100 (JNum 1) = Inr sample_token
   \<and> claim_id sample_token = JNum 1 \<and> iat sample_token = 100 \<and> exp sample_token = 100 + 60 * 60
   \<and> signature sample_token
       = hmac sample_env ''s3cret'' (claim_id sample_token, iat sample_token, exp sample_token)"
  using issue_claim_and_expiry [where e = sample_env and k = "''s3cret''" and now = 100
      and uid = "JNum 1"]
  by (auto simp: sample_env_def sample_token_def token_defs)

text \<open>
  Claim C7. For every user id, verifying a token at the time it was issued succeeds and
  returns that user id.
\<close>

theorem verify_issue_roundtrip:
  assumes "jwt_secret e = Some k"
  shows "\<exists>t. issue e now uid = Inr t \<and> verify e now t = Verified uid"
  using assms by (simp add: token_defs)


text \<open>
  Claim C7 on the sample environment.
\<close>

theorem verify_issue_roundtrip_witness:
  "jwt_secret sample_env = Some ''s3cret''
   \<and> issue sample_env 100 (JNum 1) = Inr sample_token
   \<and> verify sample_env 100 sample_token = Verified (JNum 1)"
  using verify_issue_roundtrip [where e = sample_env and k = "''s3cret''" and now = 100
      and uid = "JNum 1"]
  by (auto simp: sample_env_def sample_token_def token_defs)

text \<open>
  Claim C8. Verification rejects every token whose expiration time has passed and every
  token whose signature differs from the one recomputed under the secret. So
  \<^verbatim>\<open>GET /api/users\<close> answers 401 without a token, with an expired token and with a
  tampered token; with a token issued less than an hour ago, and the listing returned by
  the controller, it answers 200.
\<close>

theorem verify_rejects_and_route_statuses:
  "(exp t \<le> now \<longrightarrow> verify e now t = Rejected)
   \<and> (jwt_secret e = Some k \<and> signature t \<noteq> hmac e k (claim_id t, iat t, exp t)
        \<longrightarrow> verify e now t = Rejected)
   \<and> (auth_token req = None
        \<longrightarrow> sent_status (fst (get_users_route e ctrl now req)) = Some 401)
   \<and> (auth_token req = Some t \<and> exp t \<le> now
        \<longrightarrow> sent_status (fst (get_users_route e ctrl now req)) = Some 401)
   \<and> (auth_token req = Some t \<and> jwt_secret e = Some k
        \<and> signature t \<noteq> hmac e k (claim_id t, iat t, exp t)
        \<longrightarrow> sent_status (fst (get_users_route e ctrl now req)) = Some 401)
   \<and> (jwt_secret e = Some k \<and> issue e issued uid = Inr t \<and> now < issued + 60 * 60
        \<and> auth_token req = Some t \<and> ctrl GetUsers = Inr d
        \<longrightarrow> sent_status (fst (get_users_route e ctrl now req)) = Some 200)"
proof (intro conjI impI)
  assume "exp t \<le> now" then show "verify e now t = Rejected" by (rule verify_expired)
next
  assume "jwt_secret e = Some k \<and> signature t \<noteq> hmac e k (claim_id t, iat t, exp t)"
  then show "verify e now t = Rejected" by (simp add: verify_tampered)
next
  assume "auth_token req = None"
  then show "sent_status (fst (get_users_route e ctrl now req)) = Some 401"
    by (simp add: get_users_route_def verifyToken_def unauthorized_def)
next
  assume "auth_token req = Some t \<and> exp t \<le> now"
  then show "sent_status (fst (get_users_route e ctrl now req)) = Some 401"
    by (simp add: get_users_route_def verifyToken_def unauthorized_def verify_expired)
next
  assume "auth_token req = Some t \<and> jwt_secret e = Some k
        \<and> signature t \<noteq> hmac e k (claim_id t, iat t, exp t)"
  then show "sent_status (fst (get_users_route e ctrl now req)) = Some 401"
    by (simp add: get_users_route_def verifyToken_def unauthorized_def verify_tampered)
next
  assume a: "jwt_secret e = Some k \<and> issue e issued uid = Inr t \<and> now < issued + 60 * 60
        \<and> auth_token req = Some t \<and> ctrl GetUsers = Inr d"
  then have "verify e now t = Verified uid"
    using verify_fresh [of e k issued uid t now] by simp
  with a show "sent_status (fst (get_users_route e ctrl now req)) = Some 200"
    by (simp add: get_users_route_def verifyToken_def get_users_handler_def ok_def)
qed


text \<open>
  Claim C8 on the sample environment: the token issued at time 100 is rejected at time
  3700 and accepted at times 100 and 3699; a forged signature is rejected.
\<close>

theorem verify_rejects_and_route_statuses_witness:
  "exp sample_token \<le> 3700 \<and> verify sample_env 3700 sample_token = Rejected
   \<and> jwt_secret sample_env = Some ''s3cret''
   \<and> signature (sample_token\<lparr>signature := ''forged''\<rparr>)
        \<noteq> hmac sample_env ''s3cret'' (claim_id sample_token, iat sample_token, exp sample_token)
   \<and> verify sample_env 100 (sample_token\<lparr>signature := ''forged''\<rparr>) = Rejected
   \<and> sent_status (fst (get_users_route sample_env sample_ctrl 100 (list_request None))) = Some 401
   \<and> sent_status (fst (get_users_route sample_env sample_ctrl 3700
        (list_request (Some sample_token)))) = Some 401
   \<and> sent_status (fst (get_users_route sample_env sample_ctrl 100
        (list_request (Some (sample_token\<lparr>signature := ''forged''\<rparr>))))) = Some 401
   \<and> issue sample_env 100 (JNum 1) = Inr sample_token
   \<and> sample_ctrl GetUsers = Inr (JArr [sample_user])
   \<and> sent_status (fst (get_users_route sample_env sample_ctrl 100
        (list_request (Some sample_token)))) = Some 200
   \<and> sent_status (fst (get_users_route sample_env sample_ctrl 3699
        (list_request (Some sample_token)))) = Some 200"
proof -
  have i: "issue sample_env 100 (JNum 1) = Inr sample_token"
    by (simp add: token_defs sample_env_def sample_token_def)
  show ?thesis
    using
      verify_rejects_and_route_statuses [where t = sample_token and now = 3700 and e = sample_env
        and req = "list_request (Some sample_token)" and ctrl = sample_ctrl]
      verify_rejects_and_route_statuses [where t = "sample_token\<lparr>signature := ''forged''\<rparr>"
        and now = 100 and e = sample_env and k = "''s3cret''" and ctrl = sample_ctrl
        and req = "list_request (Some (sample_token\<lparr>signature := ''forged''\<rparr>))"]
      verify_rejects_and_route_statuses [where req = "list_request None" and now = 100
        and e = sample_env and ctrl = sample_ctrl]
      verify_rejects_and_route_statuses [where t = sample_token and now = 100 and e = sample_env
        and k = "''s3cret''" and issued = 100 and uid = "JNum 1" and ctrl = sample_ctrl
        and req = "list_request (Some sample_token)" and d = "JArr [sample_user]"]
      verify_rejects_and_route_statuses [where t = sample_token and now = 3699 and e = sample_env
        and k = "''s3cret''" and issued = 100 and uid = "JNum 1" and ctrl = sample_ctrl
        and req = "list_request (Some sample_token)" and d = "JArr [sample_user]"]
      i
    by (simp add: sample_env_def sample_token_def list_request_def sample_ctrl_def)
qed

end
